theory Spec2Isabelle
  imports Complex_Main
begin

section \<open>The measure panel of react-perf-devtool\<close>

text \<open>
  A shallow embedding of \<^verbatim>\<open>src/extension/components/ReactPerfDevtool.js\<close>: the
  module-level \<^verbatim>\<open>store\<close>, the component's \<^verbatim>\<open>this.state\<close>, its interval timer and
  the calls it makes to the browser. Every method of the class is a function from the
  panel to the panel; the three callbacks handed to
  \<^verbatim>\<open>chrome.devtools.inspectedWindow.eval\<close> are functions of the delivered
  \<^verbatim>\<open>(result, err)\<close> pair, run whenever the channel resolves them. The last part
  of the model puts the panel next to the inspected window and lets the channel carry
  out the evaluations the panel has issued.
\<close>

subsection \<open>Values delivered by the evaluation channel\<close>

text \<open>
  Three of the four queries have the form \<^verbatim>\<open>JSON.stringify(e)\<close>, so the channel
  delivers either a string holding a JSON text, or \<^verbatim>\<open>undefined\<close>. A string that is the
  JSON text of a value \<open>v\<close> is represented by \<open>v\<close> itself under a constructor, and
  \<^verbatim>\<open>JSON.parse\<close> takes the constructor off. The first argument of the length callback
  is compared with the number \<^verbatim>\<open>0\<close> by \<^verbatim>\<open>===\<close>, so its type has numbers as well.
\<close>

datatype js_value = Undefined | Number int | JsonText int

datatype 'a json_text = UndefinedText | JsonOf 'a

datatype exception_info = ExceptionInfo string

datatype js_error = SyntaxError

text \<open>\<^verbatim>\<open>JSON.parse(count)\<close>: a number is first turned into its decimal text and read back;
  \<^verbatim>\<open>undefined\<close> becomes the text \<^verbatim>\<open>"undefined"\<close>, which is no JSON text.\<close>

fun JSON_parse :: "js_value \<Rightarrow> js_error + int" where
  "JSON_parse Undefined = Inl SyntaxError"
| "JSON_parse (Number n) = Inr n"
| "JSON_parse (JsonText n) = Inr n"

fun JSON_parse_text :: "'a json_text \<Rightarrow> js_error + 'a" where
  "JSON_parse_text UndefinedText = Inl SyntaxError"
| "JSON_parse_text (JsonOf v) = Inr v"

subsection \<open>The queries and the inspected window\<close>

text \<open>
  \<^verbatim>\<open>queries\<close> (lines 17 to 27). The inspected window either has no global
  \<^verbatim>\<open>__REACT_PERF_DEVTOOL_GLOBAL_STORE__\<close> (the observer hook is not installed, reading it
  raises a ReferenceError that the channel reports as \<^verbatim>\<open>err\<close>), or the global has the shape
  \<^verbatim>\<open>{length, measures, rawMeasures}\<close>.
\<close>

datatype query = Q_measuresLength | Q_measures | Q_rawMeasures | Q_clear

record ('m, 'r) global_store =
  g_length :: int
  g_measures :: "'m list"
  g_rawMeasures :: "'r list"

definition referenceError :: exception_info where
  "referenceError = ExceptionInfo ''ReferenceError: __REACT_PERF_DEVTOOL_GLOBAL_STORE__ is not defined''"

fun eval_measuresLength :: "('m, 'r) global_store option \<Rightarrow> js_value \<times> exception_info option" where
  "eval_measuresLength None = (Undefined, Some referenceError)"
| "eval_measuresLength (Some g) = (JsonText (g_length g), None)"

fun eval_measures :: "('m, 'r) global_store option \<Rightarrow> 'm list json_text \<times> exception_info option" where
  "eval_measures None = (UndefinedText, Some referenceError)"
| "eval_measures (Some g) = (JsonOf (g_measures g), None)"

fun eval_rawMeasures :: "('m, 'r) global_store option \<Rightarrow> 'r list json_text \<times> exception_info option" where
  "eval_rawMeasures None = (UndefinedText, Some referenceError)"
| "eval_rawMeasures (Some g) = (JsonOf (g_rawMeasures g), None)"

text \<open>The \<^verbatim>\<open>clear\<close> query is an assignment: it creates or overwrites the global.\<close>

definition eval_clear :: "('m, 'r) global_store option \<Rightarrow> ('m, 'r) global_store option" where
  "eval_clear g = Some \<lparr>g_length = 0, g_measures = [], g_rawMeasures = []\<rparr>"

subsection \<open>Numbers and \<^verbatim>\<open>toFixed\<close>\<close>

text \<open>
  A JavaScript number is a binary64 value. A finite one is represented by the rational
  it denotes; \<open>Finite r\<close> stands for a number of the program only when \<open>r\<close> is
  representable (\<open>binary64\<close> below), which is what \<^verbatim>\<open>JSON.parse\<close> delivers. The sign of
  zero is not represented: \<^verbatim>\<open>x + (-0)\<close> is \<^verbatim>\<open>x\<close> and \<^verbatim>\<open>toFixed\<close> prints both zeros
  alike, so nothing computed here depends on it.
\<close>

datatype number = Finite rat | PosInfinity | NegInfinity | NaN

definition pow2 :: "int \<Rightarrow> rat" where
  "pow2 e = (if 0 \<le> e then 2 ^ nat e else 1 / 2 ^ nat (- e))"

text \<open>The number of binary digits of a positive integer.\<close>

function bits :: "int \<Rightarrow> int" where
  "bits n = (if n \<le> 0 then 0 else bits (n div 2) + 1)"
  by pat_completeness auto
termination
  by (relation "measure nat") auto

declare bits.simps [simp del]

text \<open>For \<open>a > 0\<close>, the integer \<open>k\<close> with \<open>2\<^sup>k \<le> a < 2\<^sup>k\<^sup>+\<^sup>1\<close>.\<close>

definition floor_log2 :: "rat \<Rightarrow> int" where
  "floor_log2 a =
     (if 1 \<le> a then bits \<lfloor>a\<rfloor> - 1
      else (let k = bits \<lfloor>1 / a\<rfloor> - 1
            in if 1 / a = pow2 k then - k else - k - 1))"

definition round_half_even :: "rat \<Rightarrow> int" where
  "round_half_even q =
     (let n = \<lfloor>q\<rfloor>; r = q - of_int n
      in if r < 1 / 2 then n
         else if 1 / 2 < r then n + 1
         else if even n then n else n + 1)"

text \<open>
  Rounding a real result to binary64, to nearest with ties to even: 53 significant bits,
  the least exponent that of the subnormals (\<open>2\<^sup>-\<^sup>1\<^sup>0\<^sup>7\<^sup>4\<close>), and infinity from \<open>2\<^sup>1\<^sup>0\<^sup>2\<^sup>4\<close> on.
\<close>

definition round64 :: "rat \<Rightarrow> number" where
  "round64 x =
     (if x = 0 then Finite 0
      else (let a = \<bar>x\<bar>;
                e = max (floor_log2 a - 52) (- 1074);
                r = of_int (round_half_even (a / pow2 e)) * pow2 e
            in if pow2 1024 \<le> r then (if x < 0 then NegInfinity else PosInfinity)
               else Finite (if x < 0 then - r else r)))"

definition binary64 :: "number \<Rightarrow> bool" where
  "binary64 x = (case x of Finite r \<Rightarrow> round64 r = Finite r | _ \<Rightarrow> False)"

text \<open>The operator \<^verbatim>\<open>+\<close> on two numbers.\<close>

fun js_add :: "number \<Rightarrow> number \<Rightarrow> number" where
  "js_add NaN _ = NaN"
| "js_add _ NaN = NaN"
| "js_add PosInfinity NegInfinity = NaN"
| "js_add NegInfinity PosInfinity = NaN"
| "js_add PosInfinity _ = PosInfinity"
| "js_add _ PosInfinity = PosInfinity"
| "js_add NegInfinity _ = NegInfinity"
| "js_add _ NegInfinity = NegInfinity"
| "js_add (Finite a) (Finite b) = round64 (a + b)"

text \<open>
  A string is its characters, except for the string \<^verbatim>\<open>ToString(x)\<close> of a finite number
  of magnitude \<open>10\<^sup>2\<^sup>1\<close> or more, which is in exponent notation: it is kept as \<open>ToString x\<close>
  and its digits are not computed.
\<close>

datatype js_string = Chars string | ToString rat

definition digit :: "int \<Rightarrow> char" where
  "digit d = ''0123456789'' ! nat (d mod 10)"

function show_int :: "int \<Rightarrow> string" where
  "show_int n = (if n < 10 then [digit n] else show_int (n div 10) @ [digit n])"
  by pat_completeness auto
termination
  by (relation "measure nat") auto

declare show_int.simps [simp del]

text \<open>
  \<^verbatim>\<open>Number.prototype.toFixed\<close>, the ECMAScript algorithm. For \<open>0 \<le> a < 10\<^sup>2\<^sup>1\<close>: the integer
  \<open>n\<close> nearest to \<open>a \<sqdot> 10\<^sup>f\<close> (the larger one on a tie), its decimal digits padded with
  zeros to \<open>f + 1\<close> places, and a point before the last \<open>f\<close> digits. The component calls
  it with \<open>f = 2\<close> only.
\<close>

definition fixed_notation :: "rat \<Rightarrow> nat \<Rightarrow> string" where
  "fixed_notation a f =
     (let n = \<lfloor>a * 10 ^ f + 1 / 2\<rfloor>;
          m = show_int n
      in if f \<noteq> 0
         then (let k = length m;
                   z = (if k \<le> f then replicate (f + 1 - k) (CHR ''0'') @ m else m);
                   k' = length z
               in take (k' - f) z @ ''.'' @ drop (k' - f) z)
         else m)"

fun toFixed :: "number \<Rightarrow> nat \<Rightarrow> js_string" where
  "toFixed NaN f = Chars ''NaN''"
| "toFixed PosInfinity f = Chars ''Infinity''"
| "toFixed NegInfinity f = Chars ''-Infinity''"
| "toFixed (Finite x) f =
     (if 10 ^ 21 \<le> \<bar>x\<bar> then ToString x
      else Chars ((if x < 0 then ''-'' else '''') @ fixed_notation \<bar>x\<bar> f))"

declare toFixed.simps(4) [simp del]

subsection \<open>The panel\<close>

record measure =
  totalTimeSpent :: number

text \<open>\<^verbatim>\<open>totalTime\<close> is the number \<^verbatim>\<open>0\<close> at construction and after a clear, and the string
  made by \<^verbatim>\<open>toFixed(2)\<close> after a merge.\<close>

datatype total = NumberTotal rat | StringTotal js_string

record ('m, 'r) view_state =
  perfData :: "'m list"
  totalTime :: total
  pendingEvents :: int
  rawMeasures :: "'r list"
  loading :: bool
  hasError :: bool
  showChart :: bool

datatype callback = LengthCallback | MeasuresCallback | RawMeasuresCallback

text \<open>The calls the component makes to its environment, in the order it makes them.
  \<^verbatim>\<open>drawChart\<close> hands its properties to the chart collaborator (\<^verbatim>\<open>getResults\<close>,
  \<^verbatim>\<open>computeTotalTime\<close> and the \<^verbatim>\<open>Graphics\<close> constructor); the call records them.\<close>

datatype 'r api_call =
    Evaluate query "callback option"
  | InspectedWindowReload
  | LocationReload
  | DrawChart js_string "'r list" nat

text \<open>
  The panel: the module-level \<^verbatim>\<open>store\<close>, the current instance of the component
  (\<^verbatim>\<open>this.state\<close>, \<^verbatim>\<open>this.timer\<close>, and whether React has unmounted it), and the
  environment: the browser's active intervals and last handle, whether the chart
  collaborator throws when called (it is not part of this file, so both outcomes are
  kept), and the calls made so far.
\<close>

record ('a, 'r) panel =
  store :: "'a measure_scheme list"
  state :: "('a measure_scheme, 'r) view_state"
  timer :: "nat option"
  unmounted :: bool
  chart_throws :: bool
  intervals :: "nat list"
  last_handle :: nat
  calls :: "'r api_call list"

text \<open>The state the constructor builds (lines 46 to 54).\<close>

definition initial_state :: "('m, 'r) view_state" where
  "initial_state = \<lparr>perfData = [], totalTime = NumberTotal 0, pendingEvents = 0,
                     rawMeasures = [], loading = False, hasError = False, showChart = False\<rparr>"

text \<open>Module load with a first instance constructed (lines 14, 36 and 44 to 55), in an
  environment whose chart collaborator returns.\<close>

definition init :: "('a, 'r) panel" where
  "init = \<lparr>store = [], state = initial_state, timer = None, unmounted = False,
           chart_throws = False, intervals = [], last_handle = 0, calls = []\<rparr>"

text \<open>A new instance: the class field \<^verbatim>\<open>timer = null\<close> and the constructor's state. The
  module-level store and the environment stay as they are.\<close>

definition constructor :: "('a, 'r) panel \<Rightarrow> ('a, 'r) panel" where
  "constructor w = w\<lparr>state := initial_state, timer := None, unmounted := False\<rparr>"

text \<open>\<^verbatim>\<open>this.setState(update)\<close>: React merges the update into the state of a mounted
  component and drops it, with a warning, once the component is unmounted.\<close>

definition setState ::
  "(('a measure_scheme, 'r) view_state \<Rightarrow> ('a measure_scheme, 'r) view_state)
     \<Rightarrow> ('a, 'r) panel \<Rightarrow> ('a, 'r) panel" where
  "setState update w = (if unmounted w then w else w\<lparr>state := update (state w)\<rparr>)"

text \<open>The browser's timers: \<^verbatim>\<open>setInterval\<close> returns a fresh handle greater than zero,
  \<^verbatim>\<open>clearInterval\<close> removes a handle from the active ones.\<close>

definition setInterval :: "('a, 'r) panel \<Rightarrow> nat \<times> ('a, 'r) panel" where
  "setInterval w =
     (let h = Suc (last_handle w)
      in (h, w\<lparr>intervals := intervals w @ [h], last_handle := h\<rparr>))"

definition clearInterval :: "nat \<Rightarrow> ('a, 'r) panel \<Rightarrow> ('a, 'r) panel" where
  "clearInterval h w = w\<lparr>intervals := removeAll h (intervals w)\<rparr>"

text \<open>\<^verbatim>\<open>this.timer && clearInterval(this.timer)\<close>: \<^verbatim>\<open>null\<close> and \<^verbatim>\<open>0\<close> are falsy.\<close>

definition timer_and_clearInterval :: "('a, 'r) panel \<Rightarrow> ('a, 'r) panel" where
  "timer_and_clearInterval w =
     (case timer w of
        None \<Rightarrow> w
      | Some h \<Rightarrow> if h \<noteq> 0 then clearInterval h w else w)"

definition evaluate :: "query \<Rightarrow> callback option \<Rightarrow> ('a, 'r) panel \<Rightarrow> ('a, 'r) panel" where
  "evaluate q cb w = w\<lparr>calls := calls w @ [Evaluate q cb]\<rparr>"

definition reloadInspectedWindow :: "('a, 'r) panel \<Rightarrow> ('a, 'r) panel" where
  "reloadInspectedWindow w = w\<lparr>calls := calls w @ [InspectedWindowReload]\<rparr>"

definition componentWillMount :: "('a, 'r) panel \<Rightarrow> ('a, 'r) panel" where
  "componentWillMount w = (if length (store w) = 0 then reloadInspectedWindow w else w)"

definition getMeasuresLength :: "('a, 'r) panel \<Rightarrow> ('a, 'r) panel" where
  "getMeasuresLength w = evaluate Q_measuresLength (Some LengthCallback) w"

definition componentDidMount :: "('a, 'r) panel \<Rightarrow> ('a, 'r) panel" where
  "componentDidMount w =
     (let w1 = setState (\<lambda>s. s\<lparr>loading := True\<rparr>) w;
          (h, w2) = setInterval w1;
          w3 = w2\<lparr>timer := Some h\<rparr>
      in setState (\<lambda>s. s\<lparr>showChart := True\<rparr>) w3)"

definition componentWillUnmount :: "('a, 'r) panel \<Rightarrow> ('a, 'r) panel" where
  "componentWillUnmount w = timer_and_clearInterval w"

definition drawChart :: "js_string \<Rightarrow> 'r list \<Rightarrow> nat \<Rightarrow> ('a, 'r) panel \<Rightarrow> ('a, 'r) panel" where
  "drawChart tt raw total_components w = w\<lparr>calls := calls w @ [DrawChart tt raw total_components]\<rparr>"

definition setErrorState :: "('a, 'r) panel \<Rightarrow> ('a, 'r) panel" where
  "setErrorState w = setState (\<lambda>s. s\<lparr>hasError := True, loading := False\<rparr>) w"

definition getRawMeasures :: "('a, 'r) panel \<Rightarrow> ('a, 'r) panel" where
  "getRawMeasures w = evaluate Q_rawMeasures (Some RawMeasuresCallback) w"

definition getMeasures :: "('a, 'r) panel \<Rightarrow> ('a, 'r) panel" where
  "getMeasures w = evaluate Q_measures (Some MeasuresCallback) (getRawMeasures w)"

definition shouldRenderMeasures :: "('a, 'r) panel \<Rightarrow> ('a, 'r) panel" where
  "shouldRenderMeasures w = (if length (perfData (state w)) = 0 then getMeasures w else w)"

definition updateEventsCount :: "int \<Rightarrow> ('a, 'r) panel \<Rightarrow> ('a, 'r) panel" where
  "updateEventsCount count w =
     shouldRenderMeasures (setState (\<lambda>s. s\<lparr>pendingEvents := count, loading := False\<rparr>) w)"

definition clearMeasures :: "('a, 'r) panel \<Rightarrow> ('a, 'r) panel" where
  "clearMeasures w = evaluate Q_clear None w"

text \<open>\<^verbatim>\<open>store.reduce((acc, comp) => acc + comp.totalTimeSpent, 0)\<close>: the binary64 sum,
  from the left.\<close>

definition reduce_totalTimeSpent :: "'a measure_scheme list \<Rightarrow> number" where
  "reduce_totalTimeSpent xs = foldl (\<lambda>acc comp. js_add acc (totalTimeSpent comp)) (Finite 0) xs"

text \<open>
  \<^verbatim>\<open>updateMeasures\<close> (lines 218 to 238). The store is assigned first. An exception of
  the chart collaborator is caught nowhere: it ends the method and the callback that
  called it, so the panel returned is then the panel at the chart call, with the store
  merged and neither the state set nor the clear query issued.
\<close>

definition updateMeasures :: "'a measure_scheme list \<Rightarrow> ('a, 'r) panel \<Rightarrow> ('a, 'r) panel" where
  "updateMeasures ms w =
     (let w1 = w\<lparr>store := store w @ ms\<rparr>;
          w2 = drawChart (toFixed (reduce_totalTimeSpent (store w1)) 2)
                 (rawMeasures (state w1)) (length (store w1)) w1
      in if chart_throws w2 then w2
         else (let w3 = setState (\<lambda>s. s\<lparr>perfData := store w2,
                            totalTime := StringTotal (toFixed (reduce_totalTimeSpent (store w2)) 2)\<rparr>) w2
               in clearMeasures w3))"

text \<open>The callback of \<^verbatim>\<open>getMeasuresLength\<close> (lines 162 to 170).\<close>

definition length_callback ::
  "js_value \<Rightarrow> exception_info option \<Rightarrow> ('a, 'r) panel \<Rightarrow> js_error + ('a, 'r) panel" where
  "length_callback count err w =
     (if err \<noteq> None \<or> count = Number 0 then Inr (setErrorState w)
      else (case JSON_parse count of
              Inl e \<Rightarrow> Inl e
            | Inr c \<Rightarrow> Inr (updateEventsCount c w)))"

text \<open>The callback of \<^verbatim>\<open>getMeasures\<close> (lines 195 to 202).\<close>

definition measures_callback ::
  "'a measure_scheme list json_text \<Rightarrow> exception_info option \<Rightarrow> ('a, 'r) panel
     \<Rightarrow> js_error + ('a, 'r) panel" where
  "measures_callback ms err w =
     (if err \<noteq> None then Inr (setErrorState w)
      else (case JSON_parse_text ms of
              Inl e \<Rightarrow> Inl e
            | Inr v \<Rightarrow> Inr (updateMeasures v w)))"

text \<open>The callback of \<^verbatim>\<open>getRawMeasures\<close> (lines 206 to 215).\<close>

definition rawMeasures_callback ::
  "'r list json_text \<Rightarrow> exception_info option \<Rightarrow> ('a, 'r) panel \<Rightarrow> js_error + ('a, 'r) panel" where
  "rawMeasures_callback ms err w =
     (if err \<noteq> None then Inr (setErrorState w)
      else (case JSON_parse_text ms of
              Inl e \<Rightarrow> Inl e
            | Inr v \<Rightarrow> Inr (setState (\<lambda>s. s\<lparr>rawMeasures := v\<rparr>) w)))"

text \<open>\<^verbatim>\<open>clear\<close> (lines 243 to 258).\<close>

definition clear :: "('a, 'r) panel \<Rightarrow> ('a, 'r) panel" where
  "clear w =
     (let w1 = w\<lparr>store := []\<rparr>;
          w2 = setState (\<lambda>s. s\<lparr>perfData := store w1, totalTime := NumberTotal 0,
                     rawMeasures := [], pendingEvents := 0, showChart := False\<rparr>) w1;
          w3 = clearMeasures w2
      in timer_and_clearInterval w3)"

text \<open>\<^verbatim>\<open>typeof window !== undefined\<close> compares a string with \<^verbatim>\<open>undefined\<close> and is always
  true, so \<^verbatim>\<open>browserReload\<close> always reloads the panel's own page.\<close>

definition browserReload :: "('a, 'r) panel \<Rightarrow> ('a, 'r) panel" where
  "browserReload w = w\<lparr>calls := calls w @ [LocationReload]\<rparr>"

definition reload :: "('a, 'r) panel \<Rightarrow> ('a, 'r) panel" where
  "reload w =
     (let w1 = clear w;
          w2 = browserReload w1;
          w3 = setState (\<lambda>s. s\<lparr>loading := True\<rparr>) w2
      in reloadInspectedWindow w3)"

subsection \<open>Events\<close>

text \<open>
  Everything that can happen to the panel. React mounts a component in one go: it
  constructs a new instance and calls \<^verbatim>\<open>componentWillMount\<close> and, after the first
  render, \<^verbatim>\<open>componentDidMount\<close>. On unmount it calls \<^verbatim>\<open>componentWillUnmount\<close> and detaches
  the instance. The other events are a tick of the interval, the channel resolving one
  of the three callbacks, and the two buttons. A result event is given to the current
  instance: a callback of an earlier instance that resolves after a later mount is not
  represented.
\<close>

datatype ('a, 'r) event =
    Mount
  | Unmount
  | Tick
  | LengthResult js_value "exception_info option"
  | MeasuresResult "'a measure_scheme list json_text" "exception_info option"
  | RawMeasuresResult "'r list json_text" "exception_info option"
  | ClearClicked
  | ReloadClicked

definition mount :: "('a, 'r) panel \<Rightarrow> ('a, 'r) panel" where
  "mount w = componentDidMount (componentWillMount (constructor w))"

definition unmount :: "('a, 'r) panel \<Rightarrow> ('a, 'r) panel" where
  "unmount w = (componentWillUnmount w)\<lparr>unmounted := True\<rparr>"

fun handle :: "('a, 'r) event \<Rightarrow> ('a, 'r) panel \<Rightarrow> js_error + ('a, 'r) panel" where
  "handle Mount w = Inr (mount w)"
| "handle Unmount w = Inr (unmount w)"
| "handle Tick w = Inr (getMeasuresLength w)"
| "handle (LengthResult count err) w = length_callback count err w"
| "handle (MeasuresResult ms err) w = measures_callback ms err w"
| "handle (RawMeasuresResult ms err) w = rawMeasures_callback ms err w"
| "handle ClearClicked w = Inr (clear w)"
| "handle ReloadClicked w = Inr (reload w)"

text \<open>A run of events; an exception thrown by \<^verbatim>\<open>JSON.parse\<close> inside a callback is
  uncaught and leaves the panel as it was before that callback.\<close>

fun run :: "('a, 'r) event list \<Rightarrow> ('a, 'r) panel \<Rightarrow> ('a, 'r) panel" where
  "run [] w = w"
| "run (e # es) w = (case handle e w of Inl _ \<Rightarrow> run es w | Inr w' \<Rightarrow> run es w')"

text \<open>The batch a successful measures result merges; every other event merges nothing.\<close>

fun batch_of :: "('a, 'r) event \<Rightarrow> 'a measure_scheme list" where
  "batch_of (MeasuresResult (JsonOf ms) None) = ms"
| "batch_of _ = []"

subsection \<open>The panel and the inspected window\<close>

text \<open>
  The evaluations the panel has issued, in order. The channel carries them out in that
  order: it evaluates the query in the inspected window as the window is then, and
  runs the callback on the result. \<open>sys_delivered\<close> counts the evaluations carried out.
  The two reloads and the chart are the browser's business and not the channel's.
\<close>

fun evaluations :: "'r api_call list \<Rightarrow> (query \<times> callback option) list" where
  "evaluations [] = []"
| "evaluations (Evaluate q cb # cs) = (q, cb) # evaluations cs"
| "evaluations (_ # cs) = evaluations cs"

record ('a, 'r) system =
  sys_panel :: "('a, 'r) panel"
  sys_window :: "('a measure_scheme, 'r) global_store option"
  sys_delivered :: nat

fun resolve :: "query \<times> callback option \<Rightarrow> ('a, 'r) system \<Rightarrow> ('a, 'r) system" where
  "resolve (Q_measuresLength, Some LengthCallback) s =
     (case eval_measuresLength (sys_window s) of
        (count, err) \<Rightarrow> s\<lparr>sys_panel := run [LengthResult count err] (sys_panel s)\<rparr>)"
| "resolve (Q_measures, Some MeasuresCallback) s =
     (case eval_measures (sys_window s) of
        (ms, err) \<Rightarrow> s\<lparr>sys_panel := run [MeasuresResult ms err] (sys_panel s)\<rparr>)"
| "resolve (Q_rawMeasures, Some RawMeasuresCallback) s =
     (case eval_rawMeasures (sys_window s) of
        (ms, err) \<Rightarrow> s\<lparr>sys_panel := run [RawMeasuresResult ms err] (sys_panel s)\<rparr>)"
| "resolve (Q_clear, None) s = s\<lparr>sys_window := eval_clear (sys_window s)\<rparr>"
| "resolve _ s = s"

definition deliver :: "('a, 'r) system \<Rightarrow> ('a, 'r) system" where
  "deliver s =
     (case drop (sys_delivered s) (evaluations (calls (sys_panel s))) of
        [] \<Rightarrow> s
      | qc # _ \<Rightarrow> (resolve qc s)\<lparr>sys_delivered := Suc (sys_delivered s)\<rparr>)"

datatype ('a, 'r) sys_step = Occur "('a, 'r) event" | Deliver

fun sys_run :: "('a, 'r) sys_step list \<Rightarrow> ('a, 'r) system \<Rightarrow> ('a, 'r) system" where
  "sys_run [] s = s"
| "sys_run (Occur e # ts) s = sys_run ts (s\<lparr>sys_panel := run [e] (sys_panel s)\<rparr>)"
| "sys_run (Deliver # ts) s = sys_run ts (deliver s)"

text \<open>The system in which everything the panel has issued has been carried out.\<close>

definition settled :: "('a, 'r) panel \<Rightarrow> ('a measure_scheme, 'r) global_store option
     \<Rightarrow> ('a, 'r) system" where
  "settled w g = \<lparr>sys_panel = w, sys_window = g,
                  sys_delivered = length (evaluations (calls w))\<rparr>"

subsection \<open>Example panels\<close>

definition one_measure :: measure where
  "one_measure = \<lparr>totalTimeSpent = Finite 1\<rparr>"

definition scenario_batch :: "measure list" where
  "scenario_batch = [\<lparr>totalTimeSpent = Finite (3 / 2)\<rparr>, \<lparr>totalTimeSpent = Finite (5 / 2)\<rparr>,
                     \<lparr>totalTimeSpent = Finite 0\<rparr>]"

text \<open>A freshly loaded panel after its first tick.\<close>

definition mounted :: "(unit, unit) panel" where
  "mounted = run [Mount, Tick] init"

text \<open>The first length query failed (the hook was not installed yet); a second tick
  has fired.\<close>

definition after_failed_poll :: "(unit, unit) panel" where
  "after_failed_poll =
     run [Mount, Tick, LengthResult Undefined (Some referenceError), Tick] init"

text \<open>One poll cycle has merged one measure; a second tick has fired.\<close>

definition after_first_merge :: "(unit, unit) panel" where
  "after_first_merge =
     run [Mount, Tick, LengthResult (JsonText 1) None,
          RawMeasuresResult (JsonOf []) None, MeasuresResult (JsonOf [one_measure]) None,
          Tick] init"

text \<open>The length result has started a fetch; the user clears the panel while the fetch
  is in flight.\<close>

definition cleared_in_flight :: "(unit, unit) panel" where
  "cleared_in_flight =
     run [Mount, Tick, LengthResult (JsonText 1) None, ClearClicked] init"

text \<open>The length result has started a fetch; the panel is unmounted while the fetch is
  in flight.\<close>

definition unmounted_in_flight :: "(unit, unit) panel" where
  "unmounted_in_flight =
     run [Mount, Tick, LengthResult (JsonText 1) None, Unmount] init"

text \<open>The first poll after load has reported three pending events and started a fetch.\<close>

definition polled_three :: "(unit, unit) panel" where
  "polled_three = run [Mount, Tick, LengthResult (JsonText 3) None] init"


text \<open>A mounted panel next to a window whose buffer holds one measure.\<close>

definition loaded_system :: "(unit, unit) system" where
  "loaded_system =
     settled (run [Mount] init)
       (Some \<lparr>g_length = 1, g_measures = [one_measure], g_rawMeasures = []\<rparr>)"

text \<open>Two ticks fire before the channel answers. It then carries out, in the order
  issued, both length queries, the first fetch (raw and normalized measures), the
  second fetch, and the two clear queries.\<close>

definition overlapping_polls :: "(unit, unit) system" where
  "overlapping_polls =
     sys_run [Occur Tick, Occur Tick, Deliver, Deliver, Deliver, Deliver, Deliver, Deliver,
              Deliver, Deliver] loaded_system"

section \<open>Facts about the handlers\<close>

lemmas panel_defs =
  evaluate_def reloadInspectedWindow_def componentWillMount_def getMeasuresLength_def
  componentDidMount_def componentWillUnmount_def drawChart_def setErrorState_def
  getRawMeasures_def getMeasures_def shouldRenderMeasures_def updateEventsCount_def
  clearMeasures_def updateMeasures_def clear_def browserReload_def reload_def
  setInterval_def clearInterval_def timer_and_clearInterval_def
  setState_def constructor_def mount_def unmount_def

lemmas callback_defs = length_callback_def measures_callback_def rawMeasures_callback_def

subsection \<open>The callbacks, branch by branch\<close>

lemma length_callback_ok:
  "length_callback (JsonText n) None w = Inr (updateEventsCount n w)"
  by (simp add: length_callback_def)

lemma length_callback_err:
  "length_callback count (Some e) w = Inr (setErrorState w)"
  by (simp add: length_callback_def)

lemma measures_callback_ok:
  "measures_callback (JsonOf ms) None w = Inr (updateMeasures ms w)"
  by (simp add: measures_callback_def)

lemma measures_callback_err:
  "measures_callback ms (Some e) w = Inr (setErrorState w)"
  by (simp add: measures_callback_def)

lemma rawMeasures_callback_ok:
  "rawMeasures_callback (JsonOf rs) None w = Inr (setState (\<lambda>s. s\<lparr>rawMeasures := rs\<rparr>) w)"
  by (simp add: rawMeasures_callback_def)

subsection \<open>What each method does to each part of the panel\<close>

lemma setState_mounted:
  "\<not> unmounted w \<Longrightarrow> setState update w = w\<lparr>state := update (state w)\<rparr>"
  by (simp add: setState_def)

lemma setState_unmounted: "unmounted w \<Longrightarrow> setState update w = w"
  by (simp add: setState_def)

lemma setErrorState_eq:
  "setErrorState w =
     (if unmounted w then w else w\<lparr>state := (state w)\<lparr>hasError := True, loading := False\<rparr>\<rparr>)"
  by (simp add: panel_defs)

lemma state_updateEventsCount:
  "state (updateEventsCount n w) =
     (if unmounted w then state w else (state w)\<lparr>pendingEvents := n, loading := False\<rparr>)"
  by (simp add: panel_defs)

lemma calls_updateEventsCount:
  "calls (updateEventsCount n w) =
     calls w @ (if perfData (state w) = []
                then [Evaluate Q_rawMeasures (Some RawMeasuresCallback),
                      Evaluate Q_measures (Some MeasuresCallback)]
                else [])"
  by (simp add: panel_defs)

lemma store_updateEventsCount: "store (updateEventsCount n w) = store w"
  by (simp add: panel_defs)

lemma store_updateMeasures: "store (updateMeasures ms w) = store w @ ms"
  by (simp add: panel_defs Let_def)

lemma state_updateMeasures:
  "state (updateMeasures ms w) =
     (if unmounted w \<or> chart_throws w then state w
      else (state w)\<lparr>perfData := store w @ ms,
                      totalTime := StringTotal (toFixed (reduce_totalTimeSpent (store w @ ms)) 2)\<rparr>)"
  by (simp add: panel_defs Let_def)

lemma calls_updateMeasures:
  "calls (updateMeasures ms w) =
     calls w @ DrawChart (toFixed (reduce_totalTimeSpent (store w @ ms)) 2)
                 (rawMeasures (state w)) (length (store w @ ms))
               # (if chart_throws w then [] else [Evaluate Q_clear None])"
  by (simp add: panel_defs Let_def)

lemma store_clear: "store (clear w) = []"
  by (simp add: panel_defs Let_def split: option.splits)


lemma unmounted_clear: "unmounted (clear w) = unmounted w"
  by (simp add: panel_defs Let_def split: option.splits)







lemma unmount_fields:
  "store (unmount w) = store w" "state (unmount w) = state w" "unmounted (unmount w)"
  "calls (unmount w) = calls w"
  by (simp_all add: panel_defs split: option.splits)

subsection \<open>The store and the timer along a run of events\<close>

lemma store_handle:
  "handle e w = Inr w' \<Longrightarrow>
     store w' = (if e = ClearClicked \<or> e = ReloadClicked then [] else store w @ batch_of e)"
  by (cases e rule: batch_of.cases)
     (auto simp: panel_defs callback_defs Let_def split: option.splits if_splits sum.splits prod.splits)

lemma batch_of_thrown: "handle e w = Inl x \<Longrightarrow> batch_of e = []"
  by (cases e rule: batch_of.cases) (auto simp: callback_defs split: if_splits sum.splits)

lemma store_run:
  "ClearClicked \<notin> set es \<Longrightarrow> ReloadClicked \<notin> set es \<Longrightarrow>
     store (run es w) = store w @ concat (map batch_of es)"
proof (induction es arbitrary: w)
  case Nil
  then show ?case by simp
next
  case (Cons e es)
  show ?case
  proof (cases "handle e w")
    case (Inl x)
    with Cons batch_of_thrown[OF Inl] show ?thesis by simp
  next
    case (Inr w')
    with Cons store_handle[OF Inr] show ?thesis by auto
  qed
qed



subsection \<open>Callbacks on an unmounted panel\<close>

lemma length_result_unmounted:
  "unmounted w \<Longrightarrow>
     state (run [LengthResult c x] w) = state w \<and> store (run [LengthResult c x] w) = store w"
  by (cases c; cases x) (simp_all add: panel_defs callback_defs)

lemma rawMeasures_result_unmounted:
  "unmounted w \<Longrightarrow> run [RawMeasuresResult r x] w = w"
  by (cases r; cases x) (simp_all add: panel_defs callback_defs)

lemma measures_result_unmounted:
  "unmounted w \<Longrightarrow>
     state (run [MeasuresResult m x] w) = state w
     \<and> store (run [MeasuresResult m x] w) = store w @ batch_of (MeasuresResult m x)"
  by (cases m; cases x) (simp_all add: panel_defs callback_defs Let_def)

subsection \<open>The channel\<close>

lemma evaluations_append: "evaluations (xs @ ys) = evaluations xs @ evaluations ys"
  by (induction xs rule: evaluations.induct) simp_all

subsection \<open>Numbers\<close>

text \<open>The decimal fractions 0.1, 0.001 and 0.014 as binary64, the sum that is not 0.3,
  and the sum that prints as 0.01 although the fractions add up to 0.015.\<close>

lemma round64_tenth: "round64 (1 / 10) = Finite (3602879701896397 / 36028797018963968)"
  by code_simp

lemma js_add_tenths:
  "js_add (round64 (1 / 10)) (round64 (2 / 10)) = Finite (1351079888211149 / 4503599627370496)"
  by code_simp

lemma toFixed_below_half_cent:
  "toFixed (js_add (round64 (1 / 1000)) (round64 (14 / 1000))) 2 = Chars ''0.01''"
  by code_simp

lemma toFixed_special:
  "toFixed NaN 2 = Chars ''NaN''" "toFixed PosInfinity 2 = Chars ''Infinity''"
  "toFixed (round64 (10 ^ 21)) 2 = ToString (10 ^ 21)"
  "toFixed (round64 (- 1 / 1000)) 2 = Chars ''-0.00''"
  by code_simp+

lemma scenario_batch_binary64: "\<forall>m \<in> set scenario_batch. binary64 (totalTimeSpent m)"
  unfolding scenario_batch_def by code_simp

lemma reduce_scenario_batch: "reduce_totalTimeSpent scenario_batch = Finite 4"
  unfolding scenario_batch_def by code_simp

lemma toFixed_4: "toFixed (Finite 4) 2 = Chars ''4.00''"
  by code_simp

lemma round64_one: "round64 1 = Finite 1"
  by code_simp

lemma toFixed_1: "toFixed (Finite 1) 2 = Chars ''1.00''"
  by code_simp

lemma toFixed_2: "toFixed (Finite 2) 2 = Chars ''2.00''"
  by code_simp

lemma round64_two: "round64 2 = Finite 2"
  by code_simp

subsection \<open>The example panels\<close>

lemma after_failed_poll_hasError: "hasError (state after_failed_poll)"
  by (simp add: after_failed_poll_def init_def initial_state_def panel_defs callback_defs Let_def)

lemma mounted_fields:
  "store mounted = []" "perfData (state mounted) = []" "hasError (state mounted) = False"
  "calls mounted = [InspectedWindowReload, Evaluate Q_measuresLength (Some LengthCallback)]"
  "timer mounted = Some 1" "intervals mounted = [1]" "unmounted mounted = False"
  "chart_throws mounted = False"
  by (simp_all add: mounted_def init_def initial_state_def panel_defs Let_def)

lemma after_first_merge_fields:
  "store after_first_merge = [one_measure]" "perfData (state after_first_merge) = [one_measure]"
  "timer after_first_merge = Some 1" "intervals after_first_merge = [1]"
  "unmounted after_first_merge = False" "last_handle after_first_merge = 1"
  by (simp_all add: after_first_merge_def init_def initial_state_def panel_defs callback_defs Let_def)

lemma cleared_in_flight_fields:
  "store cleared_in_flight = []" "rawMeasures (state cleared_in_flight) = []"
  "intervals cleared_in_flight = []" "unmounted cleared_in_flight = False"
  by (simp_all add: cleared_in_flight_def init_def initial_state_def panel_defs callback_defs Let_def)

lemma unmounted_in_flight_fields:
  "store unmounted_in_flight = []" "unmounted unmounted_in_flight"
  by (simp_all add: unmounted_in_flight_def init_def initial_state_def panel_defs callback_defs Let_def)

lemma polled_three_fields:
  "store polled_three = []" "pendingEvents (state polled_three) = 3"
  "unmounted polled_three = False" "chart_throws polled_three = False"
  "perfData (state polled_three) = []"
  by (simp_all add: polled_three_def init_def initial_state_def panel_defs callback_defs Let_def)

section \<open>The claims\<close>

subsection \<open>C1: a successful length poll and \<^verbatim>\<open>hasError\<close>\<close>

text \<open>
  C1, as stated: after a poll whose length query succeeds, \<^verbatim>\<open>hasError\<close> is false, even if
  an earlier poll had set it. The code never writes \<^verbatim>\<open>hasError: false\<close>: after a failed
  poll, a successful one (three pending events, no error) leaves the flag set.
\<close>

theorem successful_poll_keeps_hasError_counterexample:
  "length_callback (JsonText 3) None after_failed_poll = Inr (updateEventsCount 3 after_failed_poll)
   \<and> hasError (state (updateEventsCount 3 after_failed_poll))"
  by (simp add: length_callback_ok state_updateEventsCount after_failed_poll_hasError)

text \<open>
  C1, amended: a successful length poll leaves \<^verbatim>\<open>hasError\<close> as it was (set if an earlier
  poll had set it, clear otherwise); on a mounted panel it stores the count in
  \<^verbatim>\<open>pendingEvents\<close> and clears \<^verbatim>\<open>loading\<close>, and on an unmounted one it leaves them too.
\<close>

theorem successful_poll_preserves_hasError:
  "length_callback (JsonText n) None w = Inr (updateEventsCount n w)
   \<and> hasError (state (updateEventsCount n w)) = hasError (state w)
   \<and> pendingEvents (state (updateEventsCount n w))
       = (if unmounted w then pendingEvents (state w) else n)
   \<and> loading (state (updateEventsCount n w)) = (if unmounted w then loading (state w) else False)"
  by (simp add: length_callback_ok state_updateEventsCount)

theorem successful_poll_preserves_hasError_witness:
  "length_callback (JsonText 3) None mounted = Inr (updateEventsCount 3 mounted)
   \<and> hasError (state (updateEventsCount 3 mounted)) = False
   \<and> pendingEvents (state (updateEventsCount 3 mounted)) = 3
   \<and> loading (state (updateEventsCount 3 mounted)) = False"
  using successful_poll_preserves_hasError [of 3 mounted]
  by (simp add: mounted_fields)

subsection \<open>C2: zero events on the first poll\<close>

text \<open>
  C2, as stated: when the first poll after mount reports zero events, the panel does not
  enter the error state and instead triggers a reload of the inspected window. On a
  freshly mounted panel the only reload in the call log was issued by
  \<^verbatim>\<open>componentWillMount\<close>, before the first tick. The zero report then starts a fetch of
  the raw and the normalized measures and nothing else: the poll adds no reload call, and
  the calls are the same as for a report of three events.
\<close>

theorem zero_poll_triggers_no_reload_counterexample:
  "calls mounted = [InspectedWindowReload, Evaluate Q_measuresLength (Some LengthCallback)]
   \<and> length_callback (JsonText 0) None mounted = Inr (updateEventsCount 0 mounted)
   \<and> calls (updateEventsCount 0 mounted) =
       calls mounted @ [Evaluate Q_rawMeasures (Some RawMeasuresCallback),
                        Evaluate Q_measures (Some MeasuresCallback)]
   \<and> calls (updateEventsCount 0 mounted) = calls (updateEventsCount 3 mounted)"
  by (simp add: length_callback_ok calls_updateEventsCount mounted_fields)

text \<open>
  C2, amended: a report of zero events does not put the panel in the error state
  (\<^verbatim>\<open>hasError\<close> stays as it was) and triggers no reload; like any successful count it
  starts a fetch while \<^verbatim>\<open>perfData\<close> is empty. The reload of the inspected window is issued
  by \<^verbatim>\<open>componentWillMount\<close>, once per mount and exactly when the local store is empty,
  whatever the buffer reports later; a tick only issues the length query.
\<close>

theorem zero_poll_no_error_reload_at_mount:
  "length_callback (JsonText 0) None w = Inr (updateEventsCount 0 w)
   \<and> hasError (state (updateEventsCount 0 w)) = hasError (state w)
   \<and> calls (updateEventsCount 0 w) =
       calls w @ (if perfData (state w) = []
                  then [Evaluate Q_rawMeasures (Some RawMeasuresCallback),
                        Evaluate Q_measures (Some MeasuresCallback)]
                  else [])
   \<and> calls (componentWillMount w) = calls w @ (if store w = [] then [InspectedWindowReload] else [])
   \<and> calls (getMeasuresLength w) = calls w @ [Evaluate Q_measuresLength (Some LengthCallback)]"
  by (simp add: length_callback_ok state_updateEventsCount calls_updateEventsCount)
     (simp add: panel_defs)

theorem zero_poll_no_error_reload_at_mount_witness:
  "hasError (state (updateEventsCount 0 mounted)) = False
   \<and> calls (componentWillMount mounted) = calls mounted @ [InspectedWindowReload]
   \<and> calls (componentWillMount after_first_merge) = calls after_first_merge"
  using zero_poll_no_error_reload_at_mount [of mounted]
        zero_poll_no_error_reload_at_mount [of after_first_merge]
  by (simp add: mounted_fields after_first_merge_fields)

subsection \<open>C3: fetching on a nonzero count\<close>

text \<open>
  C3, as stated: on every tick whose length query returns a nonzero count with no error,
  the raw and the normalized measures are fetched and merged. Once one batch has been
  merged, \<^verbatim>\<open>perfData\<close> is not empty and \<^verbatim>\<open>shouldRenderMeasures\<close> fetches nothing: a count
  of two issues no query and leaves the store as it is.
\<close>

theorem nonzero_poll_without_fetch_counterexample:
  "length_callback (JsonText 2) None after_first_merge = Inr (updateEventsCount 2 after_first_merge)
   \<and> calls (updateEventsCount 2 after_first_merge) = calls after_first_merge
   \<and> store (updateEventsCount 2 after_first_merge) = store after_first_merge"
  by (simp add: length_callback_ok calls_updateEventsCount store_updateEventsCount
      after_first_merge_fields)

text \<open>
  C3, amended: on a tick whose length query returns a count with no error, the raw and the
  normalized measures are fetched only if \<^verbatim>\<open>perfData\<close> is empty at that moment; otherwise
  nothing is fetched and the store is unchanged. The fetched normalized measures are
  merged into the store when their callback resolves without error.
\<close>

theorem fetch_only_while_perfData_empty:
  "length_callback (JsonText n) None w = Inr (updateEventsCount n w)
   \<and> calls (updateEventsCount n w) =
       calls w @ (if perfData (state w) = []
                  then [Evaluate Q_rawMeasures (Some RawMeasuresCallback),
                        Evaluate Q_measures (Some MeasuresCallback)]
                  else [])
   \<and> store (updateEventsCount n w) = store w
   \<and> measures_callback (JsonOf ms) None w = Inr (updateMeasures ms w)
   \<and> store (updateMeasures ms w) = store w @ ms"
  by (simp add: length_callback_ok calls_updateEventsCount store_updateEventsCount
      measures_callback_ok store_updateMeasures)

theorem fetch_only_while_perfData_empty_witness:
  "calls (updateEventsCount 3 mounted) =
     [InspectedWindowReload, Evaluate Q_measuresLength (Some LengthCallback),
      Evaluate Q_rawMeasures (Some RawMeasuresCallback),
      Evaluate Q_measures (Some MeasuresCallback)]
   \<and> store (updateMeasures scenario_batch mounted) = scenario_batch"
  using fetch_only_while_perfData_empty [of 3 mounted scenario_batch]
  by (simp add: mounted_fields)

subsection \<open>C4: the store is append-only between clears\<close>

text \<open>
  C4: a merge appends its batch at the end of the store and leaves the earlier elements
  as they were; along any run of events since the last clear the store is the
  concatenation of the merged batches, in order, so its length is the sum of their sizes;
  and an event that changes the store is either a merge (a measures result without error)
  or a full clear (the clear button, or reload, which clears first).
\<close>

theorem store_grows_by_merged_batches:
  "store (updateMeasures ms w) = store w @ ms
   \<and> (ClearClicked \<notin> set es \<and> ReloadClicked \<notin> set es \<longrightarrow>
        store (run es (clear w)) = concat (map batch_of es)
        \<and> length (store (run es (clear w))) = sum_list (map (length \<circ> batch_of) es))
   \<and> (handle e w = Inr w' \<and> store w' \<noteq> store w \<longrightarrow>
        (\<exists>b. e = MeasuresResult (JsonOf b) None \<and> store w' = store w @ b)
        \<or> (e = ClearClicked \<or> e = ReloadClicked) \<and> store w' = [])"
proof (intro conjI impI)
  show "store (updateMeasures ms w) = store w @ ms" by (rule store_updateMeasures)
next
  assume a: "ClearClicked \<notin> set es \<and> ReloadClicked \<notin> set es"
  then show c: "store (run es (clear w)) = concat (map batch_of es)"
    by (simp add: store_run store_clear)
  show "length (store (run es (clear w))) = sum_list (map (length \<circ> batch_of) es)"
    unfolding c by (simp add: length_concat)
next
  assume h: "handle e w = Inr w' \<and> store w' \<noteq> store w"
  then have s: "store w' = (if e = ClearClicked \<or> e = ReloadClicked then [] else store w @ batch_of e)"
    by (simp add: store_handle)
  show "(\<exists>b. e = MeasuresResult (JsonOf b) None \<and> store w' = store w @ b)
        \<or> (e = ClearClicked \<or> e = ReloadClicked) \<and> store w' = []"
  proof (cases "e = ClearClicked \<or> e = ReloadClicked")
    case True
    with s show ?thesis by simp
  next
    case False
    with s h have "batch_of e \<noteq> []" by auto
    then obtain b where "e = MeasuresResult (JsonOf b) None"
      by (cases e rule: batch_of.cases) auto
    with s False show ?thesis by auto
  qed
qed

theorem store_grows_by_merged_batches_witness:
  "store (run [Tick, MeasuresResult (JsonOf scenario_batch) None,
               MeasuresResult (JsonOf [one_measure]) None] (clear after_first_merge))
     = scenario_batch @ [one_measure]
   \<and> length (store (run [Tick, MeasuresResult (JsonOf scenario_batch) None,
               MeasuresResult (JsonOf [one_measure]) None] (clear after_first_merge))) = 4
   \<and> handle ClearClicked after_first_merge = Inr (clear after_first_merge)
   \<and> store (clear after_first_merge) \<noteq> store after_first_merge
   \<and> store (clear after_first_merge) = []"
proof -
  have h: "handle ClearClicked after_first_merge = Inr (clear after_first_merge)
           \<and> store (clear after_first_merge) \<noteq> store after_first_merge"
    by (simp add: after_first_merge_fields store_clear)
  show ?thesis
    using store_grows_by_merged_batches
      [of "[]" after_first_merge
          "[Tick, MeasuresResult (JsonOf scenario_batch) None,
            MeasuresResult (JsonOf [one_measure]) None]"
          ClearClicked "clear after_first_merge"] h
    by (simp add: scenario_batch_def)
qed

subsection \<open>C5: the clear button\<close>




subsection \<open>C6: an error on the length query\<close>

text \<open>
  C6: when the length callback is given an error, it only sets the error state: the
  panel afterwards is the panel before with \<^verbatim>\<open>hasError\<close> set and \<^verbatim>\<open>loading\<close> cleared (and
  the very same panel if the component is unmounted), so the store, the active
  intervals, the timer handle and the issued calls are the same, and the next tick
  issues the length query again.
\<close>

theorem length_error_only_sets_error_state:
  "length_callback count (Some e) w = Inr (setErrorState w)
   \<and> setErrorState w =
       (if unmounted w then w
        else w\<lparr>state := (state w)\<lparr>hasError := True, loading := False\<rparr>\<rparr>)
   \<and> store (setErrorState w) = store w
   \<and> intervals (setErrorState w) = intervals w
   \<and> timer (setErrorState w) = timer w
   \<and> calls (setErrorState w) = calls w
   \<and> calls (getMeasuresLength (setErrorState w))
       = calls w @ [Evaluate Q_measuresLength (Some LengthCallback)]"
  by (simp add: length_callback_err setErrorState_eq getMeasuresLength_def evaluate_def)

theorem length_error_only_sets_error_state_witness:
  "length_callback Undefined (Some referenceError) mounted =
     Inr (mounted\<lparr>state := (state mounted)\<lparr>hasError := True, loading := False\<rparr>\<rparr>)
   \<and> intervals (setErrorState mounted) = [1]
   \<and> store (setErrorState mounted) = []"
  using length_error_only_sets_error_state [of Undefined referenceError mounted]
  by (simp add: mounted_fields)

subsection \<open>C7: callbacks that resolve after a clear or an unmount\<close>

text \<open>
  C7, as stated: a callback that resolves after unmount or after an explicit clear is a
  no-op on the store and on the view model. The user clears the panel while a fetch is
  in flight: the measures result takes the store from length 0 to length 1, and the
  raw-measures result is written into the view model. The panel is unmounted while a
  fetch is in flight: the measures result again takes the store from length 0 to
  length 1.
\<close>

theorem stale_measures_after_clear_counterexample:
  "measures_callback (JsonOf [one_measure]) None cleared_in_flight
     = Inr (updateMeasures [one_measure] cleared_in_flight)
   \<and> length (store cleared_in_flight) = 0
   \<and> length (store (updateMeasures [one_measure] cleared_in_flight)) = 1
   \<and> rawMeasures_callback (JsonOf [()]) None cleared_in_flight
       = Inr (cleared_in_flight\<lparr>state := (state cleared_in_flight)\<lparr>rawMeasures := [()]\<rparr>\<rparr>)
   \<and> rawMeasures (state cleared_in_flight) = []
   \<and> measures_callback (JsonOf [one_measure]) None unmounted_in_flight
       = Inr (updateMeasures [one_measure] unmounted_in_flight)
   \<and> length (store unmounted_in_flight) = 0
   \<and> length (store (updateMeasures [one_measure] unmounted_in_flight)) = 1"
  by (simp add: measures_callback_ok rawMeasures_callback_ok store_updateMeasures
      cleared_in_flight_fields unmounted_in_flight_fields setState_mounted)

text \<open>
  C7, amended: a callback that resolves after unmount leaves the view model exactly as
  it was at unmount, because React drops its \<^verbatim>\<open>setState\<close> calls: a raw-measures result
  changes nothing at all, a length result changes neither the store nor the view model,
  and a measures result changes no field of the view model but, when it carries no
  error, still appends its batch to the module-level store. A callback that resolves
  after an explicit clear, on a panel that is still mounted, is not dropped: a measures
  result without error makes the store equal to its batch, a raw-measures result
  without error replaces \<^verbatim>\<open>rawMeasures\<close>, and a measures result with an error sets the
  error state.
\<close>

theorem stale_callbacks_after_unmount_and_clear:
  "run [RawMeasuresResult r x] (unmount w) = unmount w
   \<and> state (run [LengthResult c x] (unmount w)) = state w
   \<and> store (run [LengthResult c x] (unmount w)) = store w
   \<and> state (run [MeasuresResult m x] (unmount w)) = state w
   \<and> store (run [MeasuresResult m x] (unmount w)) = store w @ batch_of (MeasuresResult m x)
   \<and> measures_callback (JsonOf ms) None (clear w) = Inr (updateMeasures ms (clear w))
   \<and> store (updateMeasures ms (clear w)) = ms
   \<and> (\<not> unmounted w \<longrightarrow>
        rawMeasures_callback (JsonOf rs) None (clear w)
          = Inr ((clear w)\<lparr>state := (state (clear w))\<lparr>rawMeasures := rs\<rparr>\<rparr>)
        \<and> measures_callback m (Some e) (clear w)
          = Inr ((clear w)\<lparr>state := (state (clear w))\<lparr>hasError := True, loading := False\<rparr>\<rparr>))"
proof -
  have u: "unmounted (unmount w)" by (rule unmount_fields)
  show ?thesis
    using length_result_unmounted [OF u, of c x] rawMeasures_result_unmounted [OF u, of r x]
      measures_result_unmounted [OF u, of m x]
    by (simp add: unmount_fields measures_callback_ok store_updateMeasures store_clear
        rawMeasures_callback_ok measures_callback_err setErrorState_eq setState_def
        unmounted_clear)
qed

theorem stale_callbacks_after_unmount_and_clear_witness:
  "unmounted after_first_merge = False
   \<and> store (run [MeasuresResult (JsonOf scenario_batch) None] (unmount after_first_merge))
       = one_measure # scenario_batch
   \<and> state (run [MeasuresResult (JsonOf scenario_batch) None] (unmount after_first_merge))
       = state after_first_merge
   \<and> run [RawMeasuresResult (JsonOf [()]) None] (unmount after_first_merge)
       = unmount after_first_merge
   \<and> store (updateMeasures scenario_batch (clear after_first_merge)) = scenario_batch
   \<and> rawMeasures_callback (JsonOf [()]) None (clear after_first_merge)
       = Inr ((clear after_first_merge)
                \<lparr>state := (state (clear after_first_merge))\<lparr>rawMeasures := [()]\<rparr>\<rparr>)"
  using stale_callbacks_after_unmount_and_clear
    [of "JsonOf [()]" None after_first_merge Undefined "JsonOf scenario_batch" scenario_batch "[()]"]
  by (simp add: after_first_merge_fields)

subsection \<open>C8: the three-measure scenario\<close>

text \<open>
  C8: on a mounted panel whose chart call returns, merging the batch with
  \<^verbatim>\<open>totalTimeSpent\<close> 1.5, 2.5 and 0.0 into an empty store gives a store of length 3 and
  the \<^verbatim>\<open>totalTime\<close> string \<^verbatim>\<open>"4.00"\<close>. In general \<^verbatim>\<open>totalTime\<close> after such a merge is the
  binary64 sum, taken from the left, of \<^verbatim>\<open>totalTimeSpent\<close> over the whole store, rendered
  by \<^verbatim>\<open>toFixed(2)\<close>.
\<close>

theorem merge_scenario_total_time:
  "store w = [] \<Longrightarrow> \<not> unmounted w \<Longrightarrow> \<not> chart_throws w \<Longrightarrow>
     measures_callback
       (JsonOf [\<lparr>totalTimeSpent = Finite (3 / 2)\<rparr>, \<lparr>totalTimeSpent = Finite (5 / 2)\<rparr>,
                \<lparr>totalTimeSpent = Finite 0\<rparr>]) None w
       = Inr (updateMeasures
           [\<lparr>totalTimeSpent = Finite (3 / 2)\<rparr>, \<lparr>totalTimeSpent = Finite (5 / 2)\<rparr>,
            \<lparr>totalTimeSpent = Finite 0\<rparr>] w)
     \<and> length (store (updateMeasures
           [\<lparr>totalTimeSpent = Finite (3 / 2)\<rparr>, \<lparr>totalTimeSpent = Finite (5 / 2)\<rparr>,
            \<lparr>totalTimeSpent = Finite 0\<rparr>] w)) = 3
     \<and> totalTime (state (updateMeasures
           [\<lparr>totalTimeSpent = Finite (3 / 2)\<rparr>, \<lparr>totalTimeSpent = Finite (5 / 2)\<rparr>,
            \<lparr>totalTimeSpent = Finite 0\<rparr>] w))
         = StringTotal (Chars ''4.00'')
     \<and> ((\<forall>m \<in> set ms. binary64 (totalTimeSpent m)) \<longrightarrow>
          totalTime (state (updateMeasures ms w))
            = StringTotal (toFixed (foldl js_add (Finite 0) (map totalTimeSpent ms)) 2))"
proof -
  assume s: "store w = []" and u: "\<not> unmounted w" and c: "\<not> chart_throws w"
  let ?b = "[\<lparr>totalTimeSpent = Finite (3 / 2)\<rparr>, \<lparr>totalTimeSpent = Finite (5 / 2)\<rparr>,
             \<lparr>totalTimeSpent = Finite 0\<rparr>]"
  have r: "reduce_totalTimeSpent ?b = Finite 4"
    using reduce_scenario_batch by (simp only: scenario_batch_def)
  have t: "totalTime (state (updateMeasures ms w))
             = StringTotal (toFixed (reduce_totalTimeSpent ms) 2)" for ms
    using s u c by (simp add: state_updateMeasures)
  have "totalTime (state (updateMeasures ?b w)) = StringTotal (Chars ''4.00'')"
    by (simp only: t r toFixed_4)
  moreover have "length (store (updateMeasures ?b w)) = 3"
    using s by (simp add: store_updateMeasures)
  moreover have "totalTime (state (updateMeasures ms w))
            = StringTotal (toFixed (foldl js_add (Finite 0) (map totalTimeSpent ms)) 2)"
    by (simp only: t reduce_totalTimeSpent_def foldl_map)
  ultimately show ?thesis
    by (simp add: measures_callback_ok)
qed

theorem merge_scenario_total_time_witness:
  "store polled_three = []
   \<and> pendingEvents (state polled_three) = 3
   \<and> \<not> unmounted polled_three \<and> \<not> chart_throws polled_three
   \<and> binary64 (Finite (3 / 2)) \<and> binary64 (Finite (5 / 2)) \<and> binary64 (Finite 0)
   \<and> length (store (updateMeasures scenario_batch polled_three)) = 3
   \<and> totalTime (state (updateMeasures scenario_batch polled_three))
       = StringTotal (Chars ''4.00'')"
proof -
  have s: "store polled_three = []" by (simp add: polled_three_fields)
  have u: "\<not> unmounted polled_three" by (simp add: polled_three_fields)
  have c: "\<not> chart_throws polled_three" by (simp add: polled_three_fields)
  show ?thesis
    using merge_scenario_total_time [OF s u c, of scenario_batch] scenario_batch_binary64
    by (simp add: polled_three_fields scenario_batch_def)
qed

subsection \<open>C9: the external clear after a merge\<close>

text \<open>
  C9, as stated: each merge is followed by the clear query, so that nothing already
  merged is still in the buffer when the next poll's fetch runs, and each event is
  counted at most once unless a reset fails. The buffer holds one measure and two ticks
  fire before the channel answers. The channel carries out every evaluation, in the
  order issued, and both clear queries are issued and carried out; but the second fetch
  is carried out before the first clear, delivers the same measure, and the store ends
  with that measure twice.
\<close>

theorem overlapping_polls_count_twice_counterexample:
  "sys_window loaded_system
     = Some \<lparr>g_length = 1, g_measures = [one_measure], g_rawMeasures = []\<rparr>
   \<and> store (sys_panel loaded_system) = []
   \<and> store (sys_panel overlapping_polls) = [one_measure, one_measure]
   \<and> totalTime (state (sys_panel overlapping_polls)) = StringTotal (Chars ''2.00'')
   \<and> evaluations (calls (sys_panel overlapping_polls))
       = [(Q_measuresLength, Some LengthCallback), (Q_measuresLength, Some LengthCallback),
          (Q_rawMeasures, Some RawMeasuresCallback), (Q_measures, Some MeasuresCallback),
          (Q_rawMeasures, Some RawMeasuresCallback), (Q_measures, Some MeasuresCallback),
          (Q_clear, None), (Q_clear, None)]
   \<and> sys_delivered overlapping_polls = 8
   \<and> sys_window overlapping_polls = Some \<lparr>g_length = 0, g_measures = [], g_rawMeasures = []\<rparr>"
  by (simp add: overlapping_polls_def loaded_system_def settled_def deliver_def
      init_def initial_state_def panel_defs callback_defs Let_def eval_clear_def
      one_measure_def reduce_totalTimeSpent_def round64_one round64_two toFixed_1 toFixed_2)

text \<open>
  C9, amended: a merge is followed at once by the issue of the external clear query,
  provided the chart call between them returns (if it throws, the store is merged and
  no clear query is issued). Carried out, the clear query leaves a buffer of length 0
  with no measures. This counts each event at most once only for a fetch carried out
  after that reset: a poll cycle that runs alone on a mounted panel with empty
  \<^verbatim>\<open>perfData\<close> (tick, length query, the two fetches, clear query, carried out in the order
  issued) merges the buffered measures once and leaves the buffer empty, so that a
  later fetch delivers nothing merged before. The code does not make a later fetch wait
  for the reset, and overlapping polls can merge the same batch twice.
\<close>

theorem merge_then_clear_in_order:
  "measures_callback (JsonOf ms) None w = Inr (updateMeasures ms w)
   \<and> store (updateMeasures ms w) = store w @ ms
   \<and> calls (updateMeasures ms w) =
       calls w @ DrawChart (toFixed (reduce_totalTimeSpent (store w @ ms)) 2)
                   (rawMeasures (state w)) (length (store w @ ms))
                 # (if chart_throws w then [] else [Evaluate Q_clear None])
   \<and> (\<not> unmounted w \<and> \<not> chart_throws w \<and> perfData (state w) = [] \<longrightarrow>
        store (sys_panel (sys_run [Occur Tick, Deliver, Deliver, Deliver, Deliver]
                 (settled w (Some g)))) = store w @ g_measures g
        \<and> sys_window (sys_run [Occur Tick, Deliver, Deliver, Deliver, Deliver]
                 (settled w (Some g)))
            = Some \<lparr>g_length = 0, g_measures = [], g_rawMeasures = []\<rparr>
        \<and> sys_delivered (sys_run [Occur Tick, Deliver, Deliver, Deliver, Deliver]
                 (settled w (Some g)))
            = length (evaluations (calls (sys_panel
                (sys_run [Occur Tick, Deliver, Deliver, Deliver, Deliver]
                   (settled w (Some g))))))
        \<and> eval_measures (sys_window (sys_run [Occur Tick, Deliver, Deliver, Deliver, Deliver]
                 (settled w (Some g))))
            = (JsonOf [], None))"
proof (intro conjI impI)
  show "measures_callback (JsonOf ms) None w = Inr (updateMeasures ms w)"
    by (rule measures_callback_ok)
  show "store (updateMeasures ms w) = store w @ ms" by (rule store_updateMeasures)
  show "calls (updateMeasures ms w) =
       calls w @ DrawChart (toFixed (reduce_totalTimeSpent (store w @ ms)) 2)
                   (rawMeasures (state w)) (length (store w @ ms))
                 # (if chart_throws w then [] else [Evaluate Q_clear None])"
    by (rule calls_updateMeasures)
next
  assume a: "\<not> unmounted w \<and> \<not> chart_throws w \<and> perfData (state w) = []"
  have c: "sys_run [Occur Tick, Deliver, Deliver, Deliver, Deliver] (settled w (Some g))
           = settled (run [Tick, LengthResult (JsonText (g_length g)) None,
                           RawMeasuresResult (JsonOf (g_rawMeasures g)) None,
                           MeasuresResult (JsonOf (g_measures g)) None] w)
               (Some \<lparr>g_length = 0, g_measures = [], g_rawMeasures = []\<rparr>)"
    using a
    by (simp add: settled_def deliver_def panel_defs callback_defs Let_def eval_clear_def
        evaluations_append)
  show "store (sys_panel (sys_run [Occur Tick, Deliver, Deliver, Deliver, Deliver]
                 (settled w (Some g)))) = store w @ g_measures g"
    unfolding c by (simp add: settled_def store_run del: run.simps)
  show "sys_window (sys_run [Occur Tick, Deliver, Deliver, Deliver, Deliver]
                 (settled w (Some g)))
            = Some \<lparr>g_length = 0, g_measures = [], g_rawMeasures = []\<rparr>"
    unfolding c by (simp add: settled_def)
  show "sys_delivered (sys_run [Occur Tick, Deliver, Deliver, Deliver, Deliver]
                 (settled w (Some g)))
            = length (evaluations (calls (sys_panel
                (sys_run [Occur Tick, Deliver, Deliver, Deliver, Deliver]
                   (settled w (Some g))))))"
    unfolding c by (simp add: settled_def)
  show "eval_measures (sys_window (sys_run [Occur Tick, Deliver, Deliver, Deliver, Deliver]
                 (settled w (Some g))))
            = (JsonOf [], None)"
    unfolding c by (simp add: settled_def)
qed

theorem merge_then_clear_in_order_witness:
  "\<not> unmounted (run [Mount] init :: (unit, unit) panel)
   \<and> \<not> chart_throws (run [Mount] init :: (unit, unit) panel)
   \<and> perfData (state (run [Mount] init :: (unit, unit) panel)) = []
   \<and> store (sys_panel (sys_run [Occur Tick, Deliver, Deliver, Deliver, Deliver] loaded_system))
       = [one_measure]
   \<and> sys_window (sys_run [Occur Tick, Deliver, Deliver, Deliver, Deliver] loaded_system)
       = Some \<lparr>g_length = 0, g_measures = [], g_rawMeasures = []\<rparr>
   \<and> calls (updateMeasures [one_measure] (init\<lparr>chart_throws := True\<rparr> :: (unit, unit) panel))
       = [DrawChart (Chars ''1.00'') [] 1]"
proof -
  have f: "\<not> unmounted (run [Mount] init :: (unit, unit) panel)
           \<and> \<not> chart_throws (run [Mount] init :: (unit, unit) panel)
           \<and> perfData (state (run [Mount] init :: (unit, unit) panel)) = []
           \<and> store (run [Mount] init :: (unit, unit) panel) = []"
    by (simp add: init_def initial_state_def panel_defs Let_def)
  have d: "calls (updateMeasures [one_measure] (init\<lparr>chart_throws := True\<rparr> :: (unit, unit) panel))
             = [DrawChart (Chars ''1.00'') [] 1]"
    by (simp add: calls_updateMeasures init_def initial_state_def one_measure_def
        reduce_totalTimeSpent_def round64_one toFixed_1)
  show ?thesis
    using f d merge_then_clear_in_order
      [of "[one_measure]" "run [Mount] init :: (unit, unit) panel"
          "\<lparr>g_length = 1, g_measures = [one_measure], g_rawMeasures = []\<rparr>"]
    by (simp add: loaded_system_def del: run.simps sys_run.simps)
qed

subsection \<open>C10: the zero-count guard\<close>

text \<open>
  C10: the length query delivers a JSON text or, with an error, \<^verbatim>\<open>undefined\<close>, never the
  number 0, so the \<^verbatim>\<open>count === 0\<close> half of the guard is never true on what the channel
  delivers: the callback enters the error state exactly when the channel reports an
  error. A buffer of length 0 arrives as the text of 0 and is handled as a successful
  count, leaving \<^verbatim>\<open>hasError\<close> as it was. (Only the number 0 itself would take the branch.)
\<close>

theorem zero_count_branch_unreachable:
  "fst (eval_measuresLength g) \<noteq> Number 0
   \<and> length_callback (fst (eval_measuresLength g)) (snd (eval_measuresLength g)) w
       = (case g of None \<Rightarrow> Inr (setErrorState w)
          | Some b \<Rightarrow> Inr (updateEventsCount (g_length b) w))
   \<and> length_callback (JsonText 0) None w = Inr (updateEventsCount 0 w)
   \<and> hasError (state (updateEventsCount 0 w)) = hasError (state w)
   \<and> length_callback (Number 0) None w = Inr (setErrorState w)"
  by (cases g) (simp_all add: length_callback_ok length_callback_err state_updateEventsCount
      length_callback_def)

theorem zero_count_branch_unreachable_witness:
  "eval_measuresLength (Some \<lparr>g_length = 0, g_measures = [] :: measure list, g_rawMeasures = [] :: unit list\<rparr>)
     = (JsonText 0, None)
   \<and> length_callback (JsonText 0) None mounted = Inr (updateEventsCount 0 mounted)
   \<and> hasError (state (updateEventsCount 0 mounted)) = False"
  using zero_count_branch_unreachable
    [of "Some \<lparr>g_length = 0, g_measures = [] :: measure list, g_rawMeasures = [] :: unit list\<rparr>" mounted]
  by (simp add: mounted_fields)

end
